theory Spec2Isabelle
  imports Main
begin

section \<open>Build configuration of the GNATColl LZMA bindings (lzma/setup.py)\<close>

text \<open>
  The class \<open>GNATCollLZMA\<close> of \<open>lzma/setup.py\<close> has two methods with logic of their
  own: \<open>update_config\<close>, which fills a configuration object from the parsed command
  line and from the file \<open>version_information\<close>, and \<open>variants\<close>, which turns the
  configured library kinds into one build invocation each. Both are embedded below.
  Python strings and byte strings are HOL strings (lists of bytes).
\<close>

subsection \<open>Data\<close>

text \<open>
  The values the program stores in \<open>config.data\<close>: a list of strings
  (\<open>library_types\<close>), a text string (\<open>BUILD\<close>), a byte string (what \<open>read\<close> returns
  for a file opened with mode \<open>'rb'\<close>) and a nested dictionary (the group \<open>gprbuild\<close>).
\<close>

datatype val =
    StrList "string list"
  | Str string
  | Bytes string
  | Group "string \<rightharpoonup> val"

text \<open>
  Modelled from the spec: the class \<open>Config\<close> of \<open>setup_support\<close>, which is not part
  of the sources at hand. The methods use two of its attributes: \<open>source_dir\<close>, the
  declared source directory, and \<open>data\<close>, the mapping from configuration keys to values.
\<close>

record config =
  source_dir :: string
  data :: "string \<rightharpoonup> val"

text \<open>The parsed command line: \<open>--disable-shared\<close> clears \<open>enable_shared\<close>
  (default true), \<open>--debug\<close> sets \<open>debug\<close> (default false).\<close>

record args =
  enable_shared :: bool
  debug :: bool

text \<open>
  The errors the two methods can raise: \<open>open\<close> fails on a missing file and on one
  that may not be read, and a dictionary lookup fails on a missing key. \<open>IllTyped\<close>
  marks a configuration outside the data model (see \<open>variants\<close>).
\<close>

datatype error = FileNotFoundError | PermissionError | KeyError | IllTyped

text \<open>The file system as \<open>open\<close> sees it: a path names no file, a file that may
  not be read, or a file with its content.\<close>

datatype file_state = Unreadable | Readable string

type_synonym fs = "string \<rightharpoonup> file_state"

text \<open>One build invocation: extra command-line arguments and the variables of the
  project file.\<close>

type_synonym variant = "string list \<times> (string \<rightharpoonup> string)"

subsection \<open>Library functions the methods call\<close>

text \<open>\<open>open(path, 'rb')\<close> followed by \<open>read()\<close>.\<close>

definition open_read :: "fs \<Rightarrow> string \<Rightarrow> error + string" where
  "open_read files path =
     (case files path of
        None \<Rightarrow> Inl FileNotFoundError
      | Some Unreadable \<Rightarrow> Inl PermissionError
      | Some (Readable content) \<Rightarrow> Inr content)"

text \<open>\<open>os.path.join\<close> of \<open>posixpath\<close>: a component that starts with the separator
  replaces what came before; otherwise it is appended, after a separator unless the
  path is empty or already ends with one.\<close>

definition join_step :: "string \<Rightarrow> string \<Rightarrow> string" where
  "join_step path b =
     (if take 1 b = ''/'' then b
      else if path = [] \<or> last path = CHR ''/'' then path @ b
      else path @ ''/'' @ b)"

definition os_path_join :: "string \<Rightarrow> string list \<Rightarrow> string" where
  "os_path_join a p = foldl join_step a p"

text \<open>\<open>bytes.strip()\<close> removes ASCII whitespace (space, tab, line feed, carriage
  return, vertical tab, form feed) from both ends.\<close>

definition is_space :: "char \<Rightarrow> bool" where
  "is_space c =
     (c = CHR '' '' \<or> c = CHR 0x09 \<or> c = CHR 0x0A \<or> c = CHR 0x0D \<or> c = CHR 0x0B \<or> c = CHR 0x0C)"

definition strip :: "string \<Rightarrow> string" where
  "strip s = rev (dropWhile is_space (rev (dropWhile is_space s)))"

text \<open>
  Modelled from the spec: the method \<open>Config.set_data\<close> of \<open>setup_support\<close>, which is
  not part of the sources at hand. Without \<open>sub\<close> the value is stored under its name in
  the mapping; with \<open>sub\<close> it is stored under its name in the nested group of that
  name, which is created when the mapping has no group there. \<open>update_config\<close> reads
  \<open>config.data['library_types']\<close> and \<open>config.data['gprbuild']['BUILD']\<close> right after
  the calls that store them.
\<close>

definition set_data :: "string \<Rightarrow> val \<Rightarrow> string option \<Rightarrow> config \<Rightarrow> config" where
  "set_data name v sub config =
     (case sub of
        None \<Rightarrow> config\<lparr>data := (data config)(name \<mapsto> v)\<rparr>
      | Some s \<Rightarrow>
          (let group = (case data config s of Some (Group g) \<Rightarrow> g | _ \<Rightarrow> Map.empty)
           in config\<lparr>data := (data config)(s \<mapsto> Group (group(name \<mapsto> v)))\<rparr>))"

subsection \<open>\<open>GNATCollLZMA.update_config\<close>\<close>

text \<open>
  The method mutates \<open>config\<close> and returns nothing, so the model returns the outcome
  (an error raised, or normal completion) together with the configuration object as
  the call leaves it. The statements run in the order of the source: the library
  kinds are stored first, then the version file is opened and read, then the version
  and the build mode are stored. An error of \<open>open\<close> leaves the method at that
  point. The two \<open>logging.info\<close> calls only read back entries just stored and are
  left out.
\<close>

definition version_path :: "config \<Rightarrow> string" where
  "version_path config = os_path_join (source_dir config) [''..'', ''version_information'']"

definition update_config :: "fs \<Rightarrow> config \<Rightarrow> args \<Rightarrow> (error + unit) \<times> config" where
  "update_config files config args =
     (let config1 =
            (if enable_shared args
             then set_data ''library_types''
                    (StrList [''static'', ''static-pic'', ''relocatable'']) None config
             else set_data ''library_types'' (StrList [''static'']) None config)
      in case open_read files (version_path config1) of
           Inl e \<Rightarrow> (Inl e, config1)
         | Inr content \<Rightarrow>
             (let version = strip content;
                  config2 = set_data ''GNATCOLL_VERSION'' (Bytes version) (Some ''gprbuild'') config1;
                  config3 = set_data ''BUILD'' (Str (if debug args then ''DEBUG'' else ''PROD''))
                              (Some ''gprbuild'') config2
              in (Inr (), config3)))"

text \<open>A variable of the nested group \<open>gprbuild\<close>: \<open>config.data['gprbuild'][name]\<close>.\<close>

definition gprbuild_var :: "config \<Rightarrow> string \<Rightarrow> val option" where
  "gprbuild_var config name =
     (case data config ''gprbuild'' of Some (Group g) \<Rightarrow> g name | _ \<Rightarrow> None)"

subsection \<open>\<open>GNATCollLZMA.variants\<close>\<close>

text \<open>The body of the \<open>for\<close> loop, with \<open>result\<close> as the accumulator that
  \<open>result.append\<close> extends at its end.\<close>

fun variants_loop :: "string \<Rightarrow> string list \<Rightarrow> variant list \<Rightarrow> variant list" where
  "variants_loop cmd [] result = result"
| "variants_loop cmd (library_type # rest) result =
     (let gpr_vars = [''LIBRARY_TYPE'' \<mapsto> library_type, ''GPR_BUILD'' \<mapsto> library_type]
      in if cmd = ''install''
         then variants_loop cmd rest
                (result @ [([''--build-name='' @ library_type, ''--build-var=LIBRARY_TYPE''],
                            gpr_vars)])
         else variants_loop cmd rest (result @ [([], gpr_vars)]))"

text \<open>
  The method reads \<open>config.data['library_types']\<close>, which raises \<open>KeyError\<close> when the
  key is missing, and loops over it. It assigns to nothing but its local variables;
  the model returns the configuration object next to the result so that this can be
  stated. The data model has a list of strings under \<open>library_types\<close>, and the loop is
  modelled for that; any other value there is reported as \<open>IllTyped\<close>.
\<close>

definition variants :: "config \<Rightarrow> string \<Rightarrow> (error + variant list) \<times> config" where
  "variants config cmd =
     (case data config ''library_types'' of
        None \<Rightarrow> (Inl KeyError, config)
      | Some (StrList library_types) \<Rightarrow> (Inr (variants_loop cmd library_types []), config)
      | Some _ \<Rightarrow> (Inl IllTyped, config))"

subsection \<open>Sample inputs\<close>

text \<open>A command line with both options at \<open>True\<close>, a fresh configuration object for
  the source directory \<open>src\<close>, and a file system whose only file is the version file
  of that directory, with white space around the version.\<close>

definition sample_args :: args where
  "sample_args = \<lparr>enable_shared = True, debug = True\<rparr>"

definition sample_base :: config where
  "sample_base = \<lparr>source_dir = ''src'', data = Map.empty\<rparr>"

definition sample_files :: fs where
  "sample_files = [''src/../version_information'' \<mapsto> Readable (''  1.2.3'' @ [CHR 0x0A])]"

text \<open>Two configurations with the same library kinds; the second one has another
  source directory and a \<open>gprbuild\<close> group.\<close>

definition sample_config :: config where
  "sample_config =
     \<lparr>source_dir = ''src'',
      data = [''library_types'' \<mapsto> StrList [''static'', ''static-pic'', ''relocatable'']]\<rparr>"

definition sample_config_debug :: config where
  "sample_config_debug =
     \<lparr>source_dir = ''lzma'',
      data = [''library_types'' \<mapsto> StrList [''static'', ''static-pic'', ''relocatable''],
              ''gprbuild'' \<mapsto> Group [''GNATCOLL_VERSION'' \<mapsto> Bytes ''2.0.0'',
                                       ''BUILD'' \<mapsto> Str ''DEBUG'']]\<rparr>"

section \<open>Properties of \<open>set_data\<close> and of the library functions\<close>

lemma source_dir_set_data: "source_dir (set_data name v sub config) = source_dir config"
  by (simp add: set_data_def Let_def split: option.splits)

lemma version_path_set_data: "version_path (set_data name v sub config) = version_path config"
  by (simp add: version_path_def source_dir_set_data)

lemma set_data_top: "set_data name v None config = config\<lparr>data := (data config)(name \<mapsto> v)\<rparr>"
  by (simp add: set_data_def)

lemma data_set_data_sub_other:
  "k \<noteq> s \<Longrightarrow> data (set_data name v (Some s) config) k = data config k"
  by (simp add: set_data_def Let_def)

lemma gprbuild_var_set_data_same:
  "gprbuild_var (set_data name v (Some ''gprbuild'') config) name = Some v"
  by (simp add: gprbuild_var_def set_data_def Let_def)

lemma gprbuild_var_set_data_other:
  "k \<noteq> name \<Longrightarrow>
   gprbuild_var (set_data name v (Some ''gprbuild'') config) k = gprbuild_var config k"
  by (simp add: gprbuild_var_def set_data_def Let_def split: option.splits val.splits)

lemma open_read_Readable:
  "files path = Some (Readable content) \<Longrightarrow> open_read files path = Inr content"
  by (simp add: open_read_def)

lemma open_read_error:
  "open_read files path = Inl e \<Longrightarrow>
   e = (if files path = None then FileNotFoundError else PermissionError)"
  by (auto simp: open_read_def split: option.splits file_state.splits)

text \<open>What \<open>strip\<close> removes is white space, at the two ends, and it removes all of it
  there.\<close>

lemma strip_decompose:
  "\<exists>pre post. s = pre @ strip s @ post \<and> list_all is_space pre \<and> list_all is_space post"
proof -
  let ?d = "dropWhile is_space s"
  have 1: "s = takeWhile is_space s @ ?d" by simp
  have "takeWhile is_space (rev ?d) @ dropWhile is_space (rev ?d) = rev ?d"
    by (rule takeWhile_dropWhile_id)
  then have "rev (takeWhile is_space (rev ?d) @ dropWhile is_space (rev ?d)) = rev (rev ?d)"
    by (rule arg_cong)
  then have 2: "?d = strip s @ rev (takeWhile is_space (rev ?d))"
    by (simp only: rev_append rev_rev_ident strip_def)
  have 3: "list_all is_space (takeWhile is_space s)"
    by (auto simp: list_all_iff dest: set_takeWhileD)
  have 4: "list_all is_space (rev (takeWhile is_space (rev ?d)))"
    by (auto simp: list_all_iff dest: set_takeWhileD)
  from 1 2 have "s = takeWhile is_space s @ strip s @ rev (takeWhile is_space (rev ?d))"
    by simp
  with 3 4 show ?thesis by blast
qed

lemma strip_ends:
  "strip s = [] \<or> (\<not> is_space (hd (strip s)) \<and> \<not> is_space (last (strip s)))"
proof (cases "strip s = []")
  case True
  then show ?thesis by simp
next
  case False
  let ?d = "dropWhile is_space s"
  let ?r = "dropWhile is_space (rev ?d)"
  from False have r: "?r \<noteq> []" by (simp add: strip_def)
  have d: "?d \<noteq> []"
  proof
    assume "?d = []"
    then have "?r = []" by (simp only: rev.simps dropWhile.simps)
    with r show False by (rule notE)
  qed
  have "\<not> is_space (hd ?r)" using r by (rule hd_dropWhile)
  then have l: "\<not> is_space (last (strip s))" using r by (simp add: strip_def last_rev)
  have "last ?r = last (rev ?d)" using r
    by (metis append_Nil2 last_appendR takeWhile_dropWhile_id)
  then have "hd (strip s) = hd ?d" using r d by (simp add: strip_def hd_rev last_rev)
  moreover have "\<not> is_space (hd ?d)" using d by (rule hd_dropWhile)
  ultimately show ?thesis using l by simp
qed

lemma strip_sample: "strip (''  1.2.3'' @ [CHR 0x0A]) = ''1.2.3''"
  by (simp add: strip_def is_space_def)

lemma version_path_sample_base: "version_path sample_base = ''src/../version_information''"
  by (simp add: version_path_def os_path_join_def join_step_def sample_base_def)

section \<open>The two outcomes of \<open>update_config\<close>\<close>

lemma update_config_raises:
  "open_read files (version_path config) = Inl e \<Longrightarrow>
   update_config files config args =
     (Inl e, set_data ''library_types''
        (StrList (if enable_shared args then [''static'', ''static-pic'', ''relocatable'']
                  else [''static''])) None config)"
  by (simp add: update_config_def version_path_set_data)

lemma update_config_returns:
  "open_read files (version_path config) = Inr content \<Longrightarrow>
   update_config files config args =
     (Inr (),
      set_data ''BUILD'' (Str (if debug args then ''DEBUG'' else ''PROD'')) (Some ''gprbuild'')
        (set_data ''GNATCOLL_VERSION'' (Bytes (strip content)) (Some ''gprbuild'')
          (set_data ''library_types''
            (StrList (if enable_shared args then [''static'', ''static-pic'', ''relocatable'']
                      else [''static''])) None config)))"
  by (simp add: update_config_def version_path_set_data Let_def)

lemma library_types_after_update:
  "data (snd (update_config files config args)) ''library_types'' =
   Some (StrList (if enable_shared args then [''static'', ''static-pic'', ''relocatable'']
                  else [''static'']))"
proof (cases "open_read files (version_path config)")
  case (Inl e)
  then show ?thesis
    by (simp add: update_config_raises set_data_top)
next
  case (Inr content)
  then show ?thesis
    by (simp add: update_config_returns data_set_data_sub_other set_data_top)
qed

section \<open>The loop of \<open>variants\<close>\<close>

text \<open>The loop appends one variant per library kind to what it was given, in the
  order of the list.\<close>

lemma variants_loop_append:
  "variants_loop cmd ts acc =
   acc @ map (\<lambda>t. (if cmd = ''install''
                    then [''--build-name='' @ t, ''--build-var=LIBRARY_TYPE''] else [],
                    [''LIBRARY_TYPE'' \<mapsto> t, ''GPR_BUILD'' \<mapsto> t])) ts"
proof (cases "cmd = ''install''")
  case True
  then show ?thesis by (induction ts arbitrary: acc) (simp_all add: Let_def)
next
  case False
  then show ?thesis by (induction ts arbitrary: acc) (simp_all add: Let_def)
qed

lemma length_variants_loop: "length (variants_loop cmd ts []) = length ts"
  by (simp add: variants_loop_append)

lemma nth_variants_loop:
  "i < length ts \<Longrightarrow>
   variants_loop cmd ts [] ! i =
     (if cmd = ''install'' then [''--build-name='' @ ts ! i, ''--build-var=LIBRARY_TYPE''] else [],
      [''LIBRARY_TYPE'' \<mapsto> ts ! i, ''GPR_BUILD'' \<mapsto> ts ! i])"
  by (simp add: variants_loop_append)

lemma variants_populated:
  "data config ''library_types'' = Some (StrList ts) \<Longrightarrow>
   variants config cmd = (Inr (variants_loop cmd ts []), config)"
  by (simp add: variants_def)

lemma library_types_sample_config:
  "data sample_config ''library_types'' =
   Some (StrList [''static'', ''static-pic'', ''relocatable''])"
  by (simp add: sample_config_def)

section \<open>The claims\<close>

text \<open>
  C1. For every command line, base configuration and file system, \<open>update_config\<close>
  leaves under \<open>library_types\<close> exactly \<open>[static]\<close> when \<open>enable_shared\<close> is false and
  exactly \<open>[static, static-pic, relocatable]\<close>, in that order, when it is true. The
  list is not empty, has no duplicates, and its first element, the default library
  kind, is \<open>static\<close>.
\<close>

theorem update_config_library_types:
  "\<exists>ts. data (snd (update_config files config args)) ''library_types'' = Some (StrList ts) \<and>
        ts = (if enable_shared args then [''static'', ''static-pic'', ''relocatable'']
              else [''static'']) \<and>
        ts \<noteq> [] \<and> distinct ts \<and> hd ts = ''static''"
  by (simp add: library_types_after_update)

text \<open>
  C2. When \<open>library_types\<close> is populated, \<open>variants\<close> returns, for every command, as
  many variants as there are library kinds, and the variable map of the \<open>i\<close>-th
  variant binds \<open>LIBRARY_TYPE\<close> to the \<open>i\<close>-th library kind: the order is kept.
\<close>

theorem variants_length_and_order:
  assumes "data config ''library_types'' = Some (StrList ts)"
  shows "\<exists>vs. fst (variants config cmd) = Inr vs \<and> length vs = length ts \<and>
              (\<forall>i<length ts. snd (vs ! i) ''LIBRARY_TYPE'' = Some (ts ! i))"
proof (intro exI conjI allI impI)
  show "fst (variants config cmd) = Inr (variants_loop cmd ts [])"
    using assms by (simp add: variants_populated)
  show "length (variants_loop cmd ts []) = length ts"
    by (rule length_variants_loop)
  fix i assume "i < length ts"
  then show "snd (variants_loop cmd ts [] ! i) ''LIBRARY_TYPE'' = Some (ts ! i)"
    by (simp add: nth_variants_loop)
qed

theorem variants_length_and_order_witness:
  "data sample_config ''library_types'' =
     Some (StrList [''static'', ''static-pic'', ''relocatable'']) \<and>
   (\<exists>vs. fst (variants sample_config ''build'') = Inr vs \<and> length vs = 3 \<and>
         snd (vs ! 0) ''LIBRARY_TYPE'' = Some ''static'' \<and>
         snd (vs ! 1) ''LIBRARY_TYPE'' = Some ''static-pic'' \<and>
         snd (vs ! 2) ''LIBRARY_TYPE'' = Some ''relocatable'')"
proof -
  note h = library_types_sample_config
  from variants_length_and_order [OF h, of "''build''"] obtain vs where
    vs: "fst (variants sample_config ''build'') = Inr vs"
        "length vs = length [''static'', ''static-pic'', ''relocatable'']"
        "\<forall>i<length [''static'', ''static-pic'', ''relocatable''].
           snd (vs ! i) ''LIBRARY_TYPE'' = Some ([''static'', ''static-pic'', ''relocatable''] ! i)"
    by blast
  have "snd (vs ! 0) ''LIBRARY_TYPE'' = Some ''static''"
    using vs(3) [rule_format, of 0] by simp
  moreover have "snd (vs ! 1) ''LIBRARY_TYPE'' = Some ''static-pic''"
    using vs(3) [rule_format, of 1] by simp
  moreover have "snd (vs ! 2) ''LIBRARY_TYPE'' = Some ''relocatable''"
    using vs(3) [rule_format, of 2] by simp
  ultimately show ?thesis using h vs(1,2) by simp
qed

text \<open>
  C3. When \<open>library_types\<close> is populated and the command is \<open>install\<close>, the argument
  list of every variant has exactly two entries: \<open>--build-name=\<close> followed by the
  library kind of that variant (the value of its \<open>LIBRARY_TYPE\<close>), and
  \<open>--build-var=LIBRARY_TYPE\<close>. For every other command the argument list of every
  variant is empty.
\<close>

theorem variants_install_arguments:
  assumes "data config ''library_types'' = Some (StrList ts)"
  shows "\<exists>vs. fst (variants config cmd) = Inr vs \<and> length vs = length ts \<and>
              (\<forall>i<length ts.
                 snd (vs ! i) ''LIBRARY_TYPE'' = Some (ts ! i) \<and>
                 fst (vs ! i) =
                   (if cmd = ''install''
                    then [''--build-name='' @ ts ! i, ''--build-var=LIBRARY_TYPE'']
                    else []))"
proof (intro exI conjI allI impI)
  show "fst (variants config cmd) = Inr (variants_loop cmd ts [])"
    using assms by (simp add: variants_populated)
  show "length (variants_loop cmd ts []) = length ts"
    by (rule length_variants_loop)
  fix i assume i: "i < length ts"
  then show "snd (variants_loop cmd ts [] ! i) ''LIBRARY_TYPE'' = Some (ts ! i)"
    by (simp add: nth_variants_loop)
  from i show "fst (variants_loop cmd ts [] ! i) =
    (if cmd = ''install'' then [''--build-name='' @ ts ! i, ''--build-var=LIBRARY_TYPE''] else [])"
    by (simp add: nth_variants_loop)
qed

theorem variants_install_arguments_witness:
  "data sample_config ''library_types'' =
     Some (StrList [''static'', ''static-pic'', ''relocatable'']) \<and>
   (\<exists>vs. fst (variants sample_config ''install'') = Inr vs \<and> length vs = 3 \<and>
         fst (vs ! 0) = [''--build-name=static'', ''--build-var=LIBRARY_TYPE''] \<and>
         fst (vs ! 1) = [''--build-name=static-pic'', ''--build-var=LIBRARY_TYPE''] \<and>
         fst (vs ! 2) = [''--build-name=relocatable'', ''--build-var=LIBRARY_TYPE'']) \<and>
   (\<exists>vs. fst (variants sample_config ''build'') = Inr vs \<and> length vs = 3 \<and>
         fst (vs ! 0) = [] \<and> fst (vs ! 1) = [] \<and> fst (vs ! 2) = [])"
proof -
  note h = library_types_sample_config
  let ?ts = "[''static'', ''static-pic'', ''relocatable'']"
  from variants_install_arguments [OF h, of "''install''"] obtain vs where
    vs: "fst (variants sample_config ''install'') = Inr vs" "length vs = length ?ts"
        "\<forall>i<length ?ts. snd (vs ! i) ''LIBRARY_TYPE'' = Some (?ts ! i) \<and>
           fst (vs ! i) = (if ''install'' = ''install''
                           then [''--build-name='' @ ?ts ! i, ''--build-var=LIBRARY_TYPE'']
                           else [])"
    by blast
  from variants_install_arguments [OF h, of "''build''"] obtain ws where
    ws: "fst (variants sample_config ''build'') = Inr ws" "length ws = length ?ts"
        "\<forall>i<length ?ts. snd (ws ! i) ''LIBRARY_TYPE'' = Some (?ts ! i) \<and>
           fst (ws ! i) = (if ''build'' = ''install''
                           then [''--build-name='' @ ?ts ! i, ''--build-var=LIBRARY_TYPE'']
                           else [])"
    by blast
  have "fst (vs ! 0) = [''--build-name=static'', ''--build-var=LIBRARY_TYPE'']"
    using vs(3) [rule_format, of 0] by simp
  moreover have "fst (vs ! 1) = [''--build-name=static-pic'', ''--build-var=LIBRARY_TYPE'']"
    using vs(3) [rule_format, of 1] by simp
  moreover have "fst (vs ! 2) = [''--build-name=relocatable'', ''--build-var=LIBRARY_TYPE'']"
    using vs(3) [rule_format, of 2] by simp
  moreover have "fst (ws ! 0) = []" using ws(3) [rule_format, of 0] by simp
  moreover have "fst (ws ! 1) = []" using ws(3) [rule_format, of 1] by simp
  moreover have "fst (ws ! 2) = []" using ws(3) [rule_format, of 2] by simp
  ultimately show ?thesis using h vs(1,2) ws(1,2) by simp
qed

text \<open>
  C4, as the code has it. When \<open>open\<close> raises on the version file (it is missing, or
  it may not be read), \<open>update_config\<close> raises that same error: \<open>FileNotFoundError\<close>
  for a missing file, \<open>PermissionError\<close> otherwise. Nothing catches it and nothing is
  returned. The configuration object has been changed by then, in one entry only:
  \<open>library_types\<close> is stored before the file is opened. The version and the build
  mode are not stored.
\<close>

theorem update_config_open_error:
  assumes "open_read files (version_path config) = Inl e"
  shows "fst (update_config files config args) = Inl e \<and>
         e = (if files (version_path config) = None then FileNotFoundError
              else PermissionError) \<and>
         snd (update_config files config args) =
           config\<lparr>data := (data config)(''library_types'' \<mapsto>
             StrList (if enable_shared args then [''static'', ''static-pic'', ''relocatable'']
                      else [''static'']))\<rparr>"
  using assms open_read_error [OF assms]
  by (simp add: update_config_raises set_data_top)

theorem update_config_open_error_witness:
  "open_read Map.empty (version_path sample_base) = Inl FileNotFoundError \<and>
   fst (update_config Map.empty sample_base sample_args) = Inl FileNotFoundError \<and>
   snd (update_config Map.empty sample_base sample_args) = sample_config"
proof -
  have h: "open_read Map.empty (version_path sample_base) = Inl FileNotFoundError"
    by (simp add: open_read_def)
  from update_config_open_error [OF h, of sample_args]
  have "fst (update_config Map.empty sample_base sample_args) = Inl FileNotFoundError"
    and "snd (update_config Map.empty sample_base sample_args) =
         sample_base\<lparr>data := (data sample_base)(''library_types'' \<mapsto>
           StrList (if enable_shared sample_args then [''static'', ''static-pic'', ''relocatable'']
                    else [''static'']))\<rparr>"
    by simp_all
  then show ?thesis using h
    by (simp add: sample_base_def sample_args_def sample_config_def)
qed

text \<open>
  The claim C4 also says that the base configuration is left unmodified on the error
  path. With no version file, the call on the fresh configuration object raises
  \<open>FileNotFoundError\<close>, and the object, which had no \<open>library_types\<close>, has the three
  library kinds afterwards.
\<close>

theorem update_config_error_changes_config:
  "fst (update_config Map.empty sample_base sample_args) = Inl FileNotFoundError \<and>
   data sample_base ''library_types'' = None \<and>
   data (snd (update_config Map.empty sample_base sample_args)) ''library_types'' =
     Some (StrList [''static'', ''static-pic'', ''relocatable'']) \<and>
   snd (update_config Map.empty sample_base sample_args) \<noteq> sample_base"
proof -
  have h: "open_read Map.empty (version_path sample_base) = Inl FileNotFoundError"
    by (simp add: open_read_def)
  have 1: "fst (update_config Map.empty sample_base sample_args) = Inl FileNotFoundError"
    by (simp add: update_config_raises [OF h])
  have 2: "data sample_base ''library_types'' = None"
    by (simp add: sample_base_def)
  have 3: "data (snd (update_config Map.empty sample_base sample_args)) ''library_types'' =
           Some (StrList [''static'', ''static-pic'', ''relocatable''])"
    by (simp add: library_types_after_update sample_args_def)
  from 2 3 have "snd (update_config Map.empty sample_base sample_args) \<noteq> sample_base"
    by auto
  with 1 2 3 show ?thesis by simp
qed

text \<open>
  C5, as the code has it. \<open>update_config\<close> reads the file \<open>version_information\<close> one
  directory above the source directory as bytes and stores them, without the white
  space at their two ends, as the byte string of the variable \<open>GNATCOLL_VERSION\<close> of
  the group \<open>gprbuild\<close>. What is cut off at the two ends is white space, and the
  stored value neither starts nor ends with white space.
\<close>

theorem update_config_stores_version:
  assumes "files (os_path_join (source_dir config) [''..'', ''version_information'']) =
           Some (Readable content)"
  shows "gprbuild_var (snd (update_config files config args)) ''GNATCOLL_VERSION'' =
           Some (Bytes (strip content)) \<and>
         (\<exists>pre post. content = pre @ strip content @ post \<and>
                     list_all is_space pre \<and> list_all is_space post) \<and>
         (strip content = [] \<or>
          \<not> is_space (hd (strip content)) \<and> \<not> is_space (last (strip content)))"
proof -
  from assms have "open_read files (version_path config) = Inr content"
    by (simp add: open_read_Readable version_path_def)
  then have "gprbuild_var (snd (update_config files config args)) ''GNATCOLL_VERSION'' =
             Some (Bytes (strip content))"
    by (simp add: update_config_returns gprbuild_var_set_data_other gprbuild_var_set_data_same)
  then show ?thesis
    using strip_decompose [of content] strip_ends [of content] by simp
qed

text \<open>The file content \<open>"  1.2.3\n"\<close> gives exactly \<open>1.2.3\<close>.\<close>

theorem update_config_stores_version_witness:
  "sample_files (os_path_join (source_dir sample_base) [''..'', ''version_information'']) =
     Some (Readable (''  1.2.3'' @ [CHR 0x0A])) \<and>
   gprbuild_var (snd (update_config sample_files sample_base sample_args)) ''GNATCOLL_VERSION'' =
     Some (Bytes ''1.2.3'')"
proof -
  have h: "sample_files (os_path_join (source_dir sample_base) [''..'', ''version_information''])
           = Some (Readable (''  1.2.3'' @ [CHR 0x0A]))"
    using version_path_sample_base by (simp add: version_path_def sample_files_def)
  from update_config_stores_version
         [where files = sample_files and config = sample_base and args = sample_args, OF h]
  have "gprbuild_var (snd (update_config sample_files sample_base sample_args))
          ''GNATCOLL_VERSION'' = Some (Bytes (strip (''  1.2.3'' @ [CHR 0x0A])))"
    by (rule conjunct1)
  then show ?thesis using h by (simp only: strip_sample simp_thms)
qed

text \<open>
  The claim C5 names the variable \<open>VERSION\<close>. After the call on the sample inputs,
  which returns normally, the group \<open>gprbuild\<close> has no variable of that name.
\<close>

theorem update_config_no_VERSION_variable:
  "fst (update_config sample_files sample_base sample_args) = Inr () \<and>
   gprbuild_var (snd (update_config sample_files sample_base sample_args)) ''VERSION'' = None"
proof -
  have h: "open_read sample_files (version_path sample_base) =
           Inr (''  1.2.3'' @ [CHR 0x0A])"
    by (simp add: version_path_sample_base open_read_def sample_files_def)
  have "gprbuild_var (set_data ''library_types'' v None sample_base) ''VERSION'' = None" for v
    by (simp add: set_data_top gprbuild_var_def sample_base_def)
  then show ?thesis
    by (simp add: update_config_returns [OF h] gprbuild_var_set_data_other)
qed

text \<open>
  C6. When the version file can be read, \<open>update_config\<close> returns normally and has
  set the variable \<open>BUILD\<close> of the group \<open>gprbuild\<close> to \<open>DEBUG\<close> if \<open>debug\<close> is set and
  to \<open>PROD\<close> otherwise.
\<close>

theorem update_config_build_mode:
  assumes "files (version_path config) = Some (Readable content)"
  shows "fst (update_config files config args) = Inr () \<and>
         gprbuild_var (snd (update_config files config args)) ''BUILD'' =
           Some (Str (if debug args then ''DEBUG'' else ''PROD''))"
proof -
  from assms have "open_read files (version_path config) = Inr content"
    by (rule open_read_Readable)
  then show ?thesis
    by (simp add: update_config_returns gprbuild_var_set_data_same)
qed

theorem update_config_build_mode_witness:
  "sample_files (version_path sample_base) = Some (Readable (''  1.2.3'' @ [CHR 0x0A])) \<and>
   gprbuild_var (snd (update_config sample_files sample_base sample_args)) ''BUILD'' =
     Some (Str ''DEBUG'') \<and>
   gprbuild_var (snd (update_config sample_files sample_base (sample_args\<lparr>debug := False\<rparr>)))
     ''BUILD'' = Some (Str ''PROD'')"
proof -
  have h: "sample_files (version_path sample_base) = Some (Readable (''  1.2.3'' @ [CHR 0x0A]))"
    by (simp add: version_path_sample_base sample_files_def)
  show ?thesis
    using h
      update_config_build_mode
        [where files = sample_files and config = sample_base and args = sample_args, OF h]
      update_config_build_mode
        [where files = sample_files and config = sample_base and
           args = "sample_args\<lparr>debug := False\<rparr>", OF h]
    by (simp add: sample_args_def)
qed

text \<open>
  C7. Two calls of \<open>update_config\<close> whose command lines agree on \<open>enable_shared\<close>
  leave the same \<open>library_types\<close>, whatever the \<open>debug\<close> option, the file system and
  the base configuration of each call are.
\<close>

theorem library_types_determined_by_enable_shared:
  assumes "enable_shared args1 = enable_shared args2"
  shows "data (snd (update_config files1 config1 args1)) ''library_types'' =
         data (snd (update_config files2 config2 args2)) ''library_types''"
  using assms by (simp add: library_types_after_update)

theorem library_types_determined_by_enable_shared_witness:
  "enable_shared sample_args = enable_shared (sample_args\<lparr>debug := False\<rparr>) \<and>
   data (snd (update_config sample_files sample_base sample_args)) ''library_types'' =
   data (snd (update_config Map.empty sample_config_debug (sample_args\<lparr>debug := False\<rparr>)))
     ''library_types''"
proof -
  have h: "enable_shared sample_args = enable_shared (sample_args\<lparr>debug := False\<rparr>)"
    by simp
  from h library_types_determined_by_enable_shared [OF h] show ?thesis
    by (rule conjI)
qed

text \<open>
  C8. When \<open>library_types\<close> is populated, \<open>variants\<close> raises no error for any command:
  it returns a list of variants, and it leaves the configuration object as it was.
\<close>

theorem variants_total_pure:
  assumes "data config ''library_types'' = Some (StrList ts)"
  shows "\<exists>vs. variants config cmd = (Inr vs, config)"
  using assms by (simp add: variants_populated)

theorem variants_total_pure_witness:
  "data sample_config ''library_types'' =
     Some (StrList [''static'', ''static-pic'', ''relocatable'']) \<and>
   (\<exists>vs. variants sample_config ''install'' = (Inr vs, sample_config)) \<and>
   (\<exists>vs. variants sample_config ''build'' = (Inr vs, sample_config))"
proof -
  note h = library_types_sample_config
  from h variants_total_pure [OF h, of "''install''"] variants_total_pure [OF h, of "''build''"]
  show ?thesis by (intro conjI)
qed

text \<open>
  C9. When \<open>library_types\<close> is populated, then for every command and every index \<open>i\<close>
  the variable map of the \<open>i\<close>-th variant has exactly the two keys \<open>LIBRARY_TYPE\<close> and
  \<open>GPR_BUILD\<close>, both bound to the \<open>i\<close>-th library kind.
\<close>

theorem variants_gpr_vars:
  assumes "data config ''library_types'' = Some (StrList ts)"
  shows "\<exists>vs. fst (variants config cmd) = Inr vs \<and> length vs = length ts \<and>
              (\<forall>i<length ts.
                 dom (snd (vs ! i)) = {''LIBRARY_TYPE'', ''GPR_BUILD''} \<and>
                 snd (vs ! i) ''LIBRARY_TYPE'' = Some (ts ! i) \<and>
                 snd (vs ! i) ''GPR_BUILD'' = Some (ts ! i))"
proof (intro exI conjI allI impI)
  show "fst (variants config cmd) = Inr (variants_loop cmd ts [])"
    using assms by (simp add: variants_populated)
  show "length (variants_loop cmd ts []) = length ts"
    by (rule length_variants_loop)
  fix i assume i: "i < length ts"
  then show "dom (snd (variants_loop cmd ts [] ! i)) = {''LIBRARY_TYPE'', ''GPR_BUILD''}"
    by (auto simp: nth_variants_loop)
  from i show "snd (variants_loop cmd ts [] ! i) ''LIBRARY_TYPE'' = Some (ts ! i)"
    by (simp add: nth_variants_loop)
  from i show "snd (variants_loop cmd ts [] ! i) ''GPR_BUILD'' = Some (ts ! i)"
    by (simp add: nth_variants_loop)
qed

theorem variants_gpr_vars_witness:
  "data sample_config ''library_types'' =
     Some (StrList [''static'', ''static-pic'', ''relocatable'']) \<and>
   (\<exists>vs. fst (variants sample_config ''install'') = Inr vs \<and> length vs = 3 \<and>
         dom (snd (vs ! 1)) = {''LIBRARY_TYPE'', ''GPR_BUILD''} \<and>
         snd (vs ! 1) ''LIBRARY_TYPE'' = Some ''static-pic'' \<and>
         snd (vs ! 1) ''GPR_BUILD'' = Some ''static-pic'')"
proof -
  note h = library_types_sample_config
  let ?ts = "[''static'', ''static-pic'', ''relocatable'']"
  from variants_gpr_vars [OF h, of "''install''"] obtain vs where
    vs: "fst (variants sample_config ''install'') = Inr vs" "length vs = length ?ts"
        "\<forall>i<length ?ts.
           dom (snd (vs ! i)) = {''LIBRARY_TYPE'', ''GPR_BUILD''} \<and>
           snd (vs ! i) ''LIBRARY_TYPE'' = Some (?ts ! i) \<and>
           snd (vs ! i) ''GPR_BUILD'' = Some (?ts ! i)"
    by blast
  have "dom (snd (vs ! 1)) = {''LIBRARY_TYPE'', ''GPR_BUILD''} \<and>
        snd (vs ! 1) ''LIBRARY_TYPE'' = Some ''static-pic'' \<and>
        snd (vs ! 1) ''GPR_BUILD'' = Some ''static-pic''"
    using vs(3) [rule_format, of 1] by simp
  then show ?thesis using h vs(1,2) by simp
qed

text \<open>
  C10. The result of \<open>variants\<close> depends on the configuration only through its
  \<open>library_types\<close> entry: two configurations with the same entry, however they differ
  otherwise, give the same result for the same command.
\<close>

theorem variants_noninterference:
  assumes "data config1 ''library_types'' = data config2 ''library_types''"
  shows "fst (variants config1 cmd) = fst (variants config2 cmd)"
  using assms by (simp add: variants_def split: option.splits val.splits)

theorem variants_noninterference_witness:
  "data sample_config ''library_types'' = data sample_config_debug ''library_types'' \<and>
   sample_config \<noteq> sample_config_debug \<and>
   fst (variants sample_config ''install'') = fst (variants sample_config_debug ''install'')"
proof -
  have h: "data sample_config ''library_types'' = data sample_config_debug ''library_types''"
    by (simp add: sample_config_def sample_config_debug_def)
  have d: "sample_config \<noteq> sample_config_debug"
    by (simp add: sample_config_def sample_config_debug_def)
  from h d variants_noninterference [OF h, of "''install''"] show ?thesis
    by (intro conjI)
qed

end
